theory Spec2Isabelle
  imports Complex_Main "HOL-Library.AList"
begin

text \<open>
  A model of the stock price viewer \<open>stock_viewer.py\<close>: \<open>parse_date\<close>, the quick
  ranges, the validation of \<open>_fetch_and_plot_async\<close>, the worker \<open>_fetch_and_plot\<close> and
  the two callbacks \<open>_on_fetch_error\<close> and \<open>_draw_plot\<close>. The market data provider is a
  parameter. Of Python's \<open>str\<close>, \<open>int\<close> and \<open>datetime\<close>, of pandas, Tk and the plotting
  backend, the operations the viewer calls are modelled, as the libraries document them.
\<close>

section \<open>Text\<close>

text \<open>
  The texts typed into the entry fields are modelled as ASCII strings (code points
  below 128). A literal of the source that holds a character outside ASCII is written
  as its UTF-8 bytes.
\<close>

definition is_digit :: "char \<Rightarrow> bool" where
  "is_digit c = (let n = (of_char c :: nat) in 48 \<le> n \<and> n \<le> 57)"

definition digit_val :: "char \<Rightarrow> int" where
  "digit_val c = int (of_char c) - 48"

text \<open>The characters \<open>str.strip()\<close> removes: TAB, LF, VT, FF, CR, FS, GS, RS, US, SPACE.\<close>

definition is_space :: "char \<Rightarrow> bool" where
  "is_space c = (let n = (of_char c :: nat) in (9 \<le> n \<and> n \<le> 13) \<or> (28 \<le> n \<and> n \<le> 32))"

text \<open>The characters \<open>int()\<close> skips around an ASCII numeral: TAB, LF, VT, FF, CR, SPACE.\<close>

definition is_int_space :: "char \<Rightarrow> bool" where
  "is_int_space c = (let n = (of_char c :: nat) in (9 \<le> n \<and> n \<le> 13) \<or> n = 32)"

definition strip_by :: "(char \<Rightarrow> bool) \<Rightarrow> string \<Rightarrow> string" where
  "strip_by p s = rev (dropWhile p (rev (dropWhile p s)))"

definition strip :: "string \<Rightarrow> string" where
  "strip s = strip_by is_space s"

text \<open>\<open>s.split(sep)\<close> for a one-character separator: every occurrence cuts, so the
  empty text gives one empty part.\<close>

fun split_on :: "char \<Rightarrow> string \<Rightarrow> string list" where
  "split_on sep [] = [[]]"
| "split_on sep (c # cs) =
     (if c = sep then [] # split_on sep cs
      else (case split_on sep cs of
              [] \<Rightarrow> [[c]]
            | p # ps \<Rightarrow> (c # p) # ps))"

text \<open>\<open>str.upper()\<close> on ASCII text.\<close>

definition upper_char :: "char \<Rightarrow> char" where
  "upper_char c =
     (let n = (of_char c :: nat) in if 97 \<le> n \<and> n \<le> 122 then char_of (n - 32) else c)"

definition upper :: "string \<Rightarrow> string" where
  "upper s = map upper_char s"

subsection \<open>\<open>int(text)\<close>\<close>

text \<open>
  Python's \<open>int\<close> on a string, base ten: surrounding white space is skipped, one sign is
  allowed, then come decimal digits, where single underscores may stand between two
  digits. A numeral of more than 4300 digits is refused (the interpreter's default
  limit). Every refusal is a \<open>ValueError\<close>, here \<open>None\<close>.
\<close>

fun int_body_ok :: "string \<Rightarrow> bool" where
  "int_body_ok [] = False"
| "int_body_ok [c] = is_digit c"
| "int_body_ok (c # d # cs) =
     (is_digit c \<and> (if d = CHR ''_'' then int_body_ok cs else int_body_ok (d # cs)))"

definition digits_value :: "string \<Rightarrow> int" where
  "digits_value ds = foldl (\<lambda>a c. 10 * a + digit_val c) 0 ds"

definition max_str_digits :: nat where
  "max_str_digits = 4300"

definition int_unsigned :: "string \<Rightarrow> int option" where
  "int_unsigned body =
     (if int_body_ok body \<and> length (filter is_digit body) \<le> max_str_digits
      then Some (digits_value (filter is_digit body)) else None)"

definition py_int :: "string \<Rightarrow> int option" where
  "py_int s =
     (case strip_by is_int_space s of
        [] \<Rightarrow> None
      | c # cs \<Rightarrow>
          if c = CHR ''+'' then int_unsigned cs
          else if c = CHR ''-'' then map_option uminus (int_unsigned cs)
          else int_unsigned (c # cs))"

section \<open>Dates\<close>

text \<open>
  \<open>datetime.date\<close>: a year, a month and a day that name a day of the proleptic
  Gregorian calendar between 0001-01-01 and 9999-12-31. The constructor refuses
  everything else with a \<open>ValueError\<close>. Dates compare as (year, month, day).
\<close>

record date =
  year :: int
  month :: int
  day :: int

definition is_leap :: "int \<Rightarrow> bool" where
  "is_leap y = (y mod 4 = 0 \<and> (y mod 100 \<noteq> 0 \<or> y mod 400 = 0))"

definition days_in_month :: "int \<Rightarrow> int \<Rightarrow> int" where
  "days_in_month y m =
     (if m = 2 then (if is_leap y then 29 else 28)
      else if m = 4 \<or> m = 6 \<or> m = 9 \<or> m = 11 then 30 else 31)"

definition valid_date :: "date \<Rightarrow> bool" where
  "valid_date d =
     (1 \<le> year d \<and> year d \<le> 9999 \<and> 1 \<le> month d \<and> month d \<le> 12 \<and>
      1 \<le> day d \<and> day d \<le> days_in_month (year d) (month d))"

definition mk_date :: "int \<Rightarrow> int \<Rightarrow> int \<Rightarrow> date" where
  "mk_date y m d = \<lparr>year = y, month = m, day = d\<rparr>"

definition date_new :: "int \<Rightarrow> int \<Rightarrow> int \<Rightarrow> date option" where
  "date_new y m d = (if valid_date (mk_date y m d) then Some (mk_date y m d) else None)"

definition date_lt :: "date \<Rightarrow> date \<Rightarrow> bool" where
  "date_lt a b =
     (year a < year b \<or> (year a = year b \<and>
        (month a < month b \<or> (month a = month b \<and> day a < day b))))"

definition date_le :: "date \<Rightarrow> date \<Rightarrow> bool" where
  "date_le a b = (date_lt a b \<or> a = b)"

subsection \<open>Date arithmetic\<close>

text \<open>
  \<open>date + timedelta(days=n)\<close> and \<open>date - timedelta(days=n)\<close>, as the interpreter's
  \<open>datetime\<close> module computes them: the day field is moved by \<open>n\<close> and the date is
  normalised; one day out of range is fixed up directly, anything further goes through
  the day's ordinal number (0001-01-01 is day 1). A result outside years 1 to 9999 is an
  \<open>OverflowError\<close>.
\<close>

definition days_before_year :: "int \<Rightarrow> int" where
  "days_before_year y = (let y1 = y - 1 in y1 * 365 + y1 div 4 - y1 div 100 + y1 div 400)"

definition days_before_month_tab :: "int list" where
  "days_before_month_tab = [0, 0, 31, 59, 90, 120, 151, 181, 212, 243, 273, 304, 334]"

definition days_before_month :: "int \<Rightarrow> int \<Rightarrow> int" where
  "days_before_month y m =
     days_before_month_tab ! nat m + (if m > 2 \<and> is_leap y then 1 else 0)"

definition ymd_to_ord :: "int \<Rightarrow> int \<Rightarrow> int \<Rightarrow> int" where
  "ymd_to_ord y m d = days_before_year y + days_before_month y m + d"

definition MAXORDINAL :: int where
  "MAXORDINAL = 3652059"

definition ord_to_ymd :: "int \<Rightarrow> date" where
  "ord_to_ymd ordinal =
     (let o1 = ordinal - 1;
          n400 = o1 div 146097; r400 = o1 mod 146097;
          n100 = r400 div 36524; r100 = r400 mod 36524;
          n4 = r100 div 1461; r4 = r100 mod 1461;
          n1 = r4 div 365; n = r4 mod 365;
          y = n400 * 400 + 1 + n100 * 100 + n4 * 4 + n1
      in if n1 = 4 \<or> n100 = 4 then mk_date (y - 1) 12 31
         else
           let leapyear = (n1 = 3 \<and> (n4 \<noteq> 24 \<or> n100 = 3));
               m0 = (n + 50) div 32;
               preceding0 = days_before_month_tab ! nat m0 + (if m0 > 2 \<and> leapyear then 1 else 0);
               m = (if preceding0 > n then m0 - 1 else m0);
               preceding = (if preceding0 > n then preceding0 - days_in_month y (m0 - 1)
                            else preceding0)
           in mk_date y m (n - preceding + 1))"

datatype exn =
    ValueError string
  | RuntimeError string
  | OverflowError string
  | IndexError string
  | KeyError string
  | NameError string
  | ProviderError string

fun exn_str :: "exn \<Rightarrow> string" where
  "exn_str (ValueError m) = m"
| "exn_str (RuntimeError m) = m"
| "exn_str (OverflowError m) = m"
| "exn_str (IndexError m) = m"
| "exn_str (KeyError m) = m"
| "exn_str (NameError m) = m"
| "exn_str (ProviderError m) = m"

definition normalize_date :: "int \<Rightarrow> int \<Rightarrow> int \<Rightarrow> exn + date" where
  "normalize_date y m d =
     (let dim = days_in_month y m;
          out_of_range = Inl (OverflowError ''date value out of range'');
          check = (\<lambda>r. if 1 \<le> year r \<and> year r \<le> 9999 then Inr r else out_of_range)
      in if 1 \<le> d \<and> d \<le> dim then check (mk_date y m d)
         else if d = 0 then
           (if m - 1 > 0 then check (mk_date y (m - 1) (days_in_month y (m - 1)))
            else check (mk_date (y - 1) 12 31))
         else if d = dim + 1 then
           (if m + 1 > 12 then check (mk_date (y + 1) 1 1) else check (mk_date y (m + 1) 1))
         else
           let ordinal = ymd_to_ord y m 1 + d - 1
           in if ordinal < 1 \<or> ordinal > MAXORDINAL then out_of_range
              else check (ord_to_ymd ordinal))"

definition date_add_days :: "date \<Rightarrow> int \<Rightarrow> exn + date" where
  "date_add_days dt n = normalize_date (year dt) (month dt) (day dt + n)"

definition date_sub_days :: "date \<Rightarrow> int \<Rightarrow> exn + date" where
  "date_sub_days dt n = normalize_date (year dt) (month dt) (day dt - n)"

subsection \<open>Printing\<close>

fun str_nat :: "nat \<Rightarrow> string" where
  "str_nat n =
     (if n < 10 then [char_of (48 + n)]
      else str_nat (n div 10) @ [char_of (48 + n mod 10)])"

definition zfill :: "nat \<Rightarrow> string \<Rightarrow> string" where
  "zfill w s = replicate (w - length s) CHR ''0'' @ s"

text \<open>\<open>date.isoformat()\<close>, which is also \<open>str(date)\<close>: \<open>%04d-%02d-%02d\<close>.\<close>

definition isoformat :: "date \<Rightarrow> string" where
  "isoformat d =
     zfill 4 (str_nat (nat (year d))) @ ''-'' @ zfill 2 (str_nat (nat (month d))) @ ''-''
       @ zfill 2 (str_nat (nat (day d)))"

section \<open>Helpers of the viewer\<close>

text \<open>
  \<open>parse_date(s, fallback)\<close>. The text is a \<open>str\<close>, so \<open>s or ""\<close> is \<open>s\<close>. The list
  comprehension converts every part before the three names are bound, and every
  exception of the \<open>try\<close> body (a part that is no integer, another number of parts than
  three, a day the calendar does not have) is turned into the same \<open>ValueError\<close>.
\<close>

definition invalid_date_msg :: "string \<Rightarrow> string" where
  "invalid_date_msg s = ''Invalid date: '' @ [CHR 0x27] @ s @ [CHR 0x27] @ ''. Expected YYYY-MM-DD''"

definition parse_date :: "string \<Rightarrow> date \<Rightarrow> exn + date" where
  "parse_date s0 fallback =
     (let s = strip s0
      in if s = [] then Inr fallback
         else (case those (map py_int (split_on CHR ''-'' s)) of
                 Some [y, m, d] \<Rightarrow>
                   (case date_new y m d of
                      Some r \<Rightarrow> Inr r
                    | None \<Rightarrow> Inl (ValueError (invalid_date_msg s)))
               | _ \<Rightarrow> Inl (ValueError (invalid_date_msg s))))"

section \<open>The price table\<close>

text \<open>
  A price is a number or NaN (\<open>None\<close>); numbers are exact rationals here, so the rounding
  of floating point is not part of the model. A cell of the volume column is a scalar
  or, when the provider's columns are two-level, a row of an array.
\<close>

type_synonym price = "rat option"

datatype cell = Scalar price | Row "price list"

text \<open>
  The \<open>DataFrame\<close> of the provider: the time index, the column \<open>Adj Close\<close> when there is
  one, the column \<open>Close\<close>, which every table of the provider has, the column \<open>Volume\<close>
  when there is one, and the columns the viewer adds, in the order they were added. The
  table is empty when it has no rows.
\<close>

record dataframe =
  df_index :: "int list"
  adj_close :: "price list option"
  close :: "price list"
  volume :: "cell list option"
  added :: "(string \<times> price list) list"

definition df_empty :: "dataframe \<Rightarrow> bool" where
  "df_empty df = (df_index df = [])"

definition df_len :: "dataframe \<Rightarrow> nat" where
  "df_len df = length (df_index df)"

definition df_col :: "dataframe \<Rightarrow> string \<Rightarrow> price list option" where
  "df_col df name =
     (if name = ''Adj Close'' then adj_close df
      else if name = ''Close'' then Some (close df)
      else map_of (added df) name)"

definition df_set_col :: "dataframe \<Rightarrow> string \<Rightarrow> price list \<Rightarrow> dataframe" where
  "df_set_col df name col = df\<lparr>added := AList.update name col (added df)\<rparr>"

subsection \<open>\<open>Series.rolling(window=w).mean()\<close>\<close>

text \<open>
  The library's rolling mean: the window of row \<open>i\<close> holds the rows \<open>i - w + 1\<close> to \<open>i\<close>
  that exist, \<open>min_periods\<close> is the window size when it is not given, and the result of a
  row is the mean of the numbers in its window when there are at least \<open>min_periods\<close> of
  them, NaN otherwise.
\<close>

definition window_mean :: "nat \<Rightarrow> price list \<Rightarrow> price" where
  "window_mean min_periods win =
     (let obs = List.map_filter (\<lambda>x. x) win
      in if min_periods \<le> length obs \<and> obs \<noteq> []
         then Some (sum_list obs / of_nat (length obs)) else None)"

definition rolling_mean :: "nat \<Rightarrow> price list \<Rightarrow> price list" where
  "rolling_mean w xs =
     map (\<lambda>i. window_mean w (drop (Suc i - w) (take (Suc i) xs))) [0..<length xs]"

section \<open>The application\<close>

text \<open>
  The part of \<open>StockApp\<close> the fetch cycle reads and writes: the Tk variables of the
  entry fields and check boxes, the status line, the state of the Load button
  (\<open>NORMAL\<close> is \<open>True\<close>), the figure as the list of what was drawn on it since it was last
  cleared, the error boxes shown so far, and the exceptions that escaped a Tk callback
  (Tk reports them on the error stream and goes on).
\<close>

datatype artist =
    Line string "price list" bool
  | Title string
  | Bars "price list"

record app =
  symbol_var :: string
  start_var :: string
  end_var :: string
  interval_var :: string
  ma5_var :: bool
  ma20_var :: bool
  ma50_var :: bool
  status_var :: string
  load_btn_enabled :: bool
  fig :: "artist list"
  dialogs :: "(string \<times> string) list"
  callback_errors :: "exn list"

definition showerror :: "string \<Rightarrow> string \<Rightarrow> app \<Rightarrow> app" where
  "showerror title msg a = a\<lparr>dialogs := dialogs a @ [(title, msg)]\<rparr>"

subsection \<open>Quick ranges\<close>

datatype payload = Ytd | Max | Days int

text \<open>\<open>_set_quick_range\<close> up to its last line, the call of \<open>_fetch_and_plot_async\<close>.\<close>

definition quick_range :: "payload \<Rightarrow> date \<Rightarrow> exn + date \<times> date" where
  "quick_range p today =
     (case p of
        Ytd \<Rightarrow> (case date_new (year today) 1 1 of
                  Some start \<Rightarrow> Inr (start, today)
                | None \<Rightarrow> Inl (ValueError ''year is out of range''))
      | Max \<Rightarrow> (case date_new 1980 1 1 of
                  Some start \<Rightarrow> Inr (start, today)
                | None \<Rightarrow> Inl (ValueError ''year is out of range''))
      | Days n \<Rightarrow> (case date_sub_days today n of
                     Inl e \<Rightarrow> Inl e
                   | Inr start \<Rightarrow> Inr (start, today)))"

definition set_quick_range :: "payload \<Rightarrow> date \<Rightarrow> app \<Rightarrow> app" where
  "set_quick_range p today a =
     (case quick_range p today of
        Inl e \<Rightarrow> a\<lparr>callback_errors := callback_errors a @ [e]\<rparr>
      | Inr (start, end) \<Rightarrow> a\<lparr>start_var := isoformat start, end_var := isoformat end\<rparr>)"

subsection \<open>Validation and dispatch\<close>

record request =
  req_symbol :: string
  req_start :: date
  req_end :: date
  req_interval :: string

text \<open>
  The \<open>try\<close> block of \<open>_fetch_and_plot_async\<close>. \<open>today\<close> is what \<open>dt.date.today()\<close>
  returns during the call.
\<close>

definition validate :: "app \<Rightarrow> date \<Rightarrow> exn + request" where
  "validate a today =
     (let symbol = upper (strip (symbol_var a))
      in if symbol = [] then Inl (ValueError ''Ticker cannot be empty'')
         else case date_sub_days today 365 of
           Inl e \<Rightarrow> Inl e
         | Inr year_ago \<Rightarrow>
            (case parse_date (start_var a) year_ago of
               Inl e \<Rightarrow> Inl e
             | Inr start \<Rightarrow>
                (case parse_date (end_var a) today of
                   Inl e \<Rightarrow> Inl e
                 | Inr end \<Rightarrow>
                    if date_lt end start then Inl (ValueError ''End date is before start date'')
                    else Inr \<lparr>req_symbol = symbol, req_start = start, req_end = end,
                              req_interval = (if interval_var a = [] then ''1d''
                                              else interval_var a)\<rparr>)))"

definition loading_status :: "request \<Rightarrow> string" where
  "loading_status r =
     ''Loading '' @ req_symbol r @ '' '' @ req_interval r @ '' from '' @ isoformat (req_start r)
       @ '' to '' @ isoformat (req_end r) @ [CHR 0xE2, CHR 0x80, CHR 0xA6]"

text \<open>
  \<open>_fetch_and_plot_async\<close>: the new state of the application and, when a worker thread
  was started, its arguments.
\<close>

definition fetch_and_plot_async :: "app \<Rightarrow> date \<Rightarrow> app \<times> request option" where
  "fetch_and_plot_async a today =
     (case validate a today of
        Inl e \<Rightarrow> (showerror ''Input error'' (exn_str e) a, None)
      | Inr r \<Rightarrow> (a\<lparr>load_btn_enabled := False, status_var := loading_status r\<rparr>, Some r))"

subsection \<open>The worker thread\<close>

text \<open>
  The provider \<open>yf.download\<close> is opaque: given the symbol, the two ISO dates and the
  interval it raises, returns \<open>None\<close> or returns a table.
\<close>

datatype download_result = Raises exn | Returns_None | Returns dataframe

type_synonym provider = "string \<Rightarrow> string \<Rightarrow> string \<Rightarrow> string \<Rightarrow> download_result"

definition no_data_msg :: string where
  "no_data_msg = ''No data returned. Try a different symbol, date range, or interval.''"

text \<open>\<open>if df is None or df.empty: raise RuntimeError(...)\<close> after the provider's call.\<close>

definition check_table :: "download_result \<Rightarrow> exn + dataframe" where
  "check_table res =
     (case res of
        Raises e \<Rightarrow> Inl e
      | Returns_None \<Rightarrow> Inl (RuntimeError no_data_msg)
      | Returns df \<Rightarrow> if df_empty df then Inl (RuntimeError no_data_msg) else Inr df)"

text \<open>The \<open>try\<close> block of \<open>_fetch_and_plot\<close>: the table, or the exception its handler binds
  to \<open>e\<close>.\<close>

definition download :: "provider \<Rightarrow> string \<Rightarrow> date \<Rightarrow> date \<Rightarrow> string \<Rightarrow> exn + dataframe" where
  "download yf symbol start end interval =
     (case date_add_days end 1 of
        Inl e \<Rightarrow> Inl e
      | Inr end_inclusive \<Rightarrow>
          check_table (yf symbol (isoformat start) (isoformat end_inclusive) interval))"

text \<open>One \<open>if self.maN_var.get(): ...\<close> step on the pair of the table and \<open>ma_cols\<close>;
  \<open>prices\<close> is \<open>df[price_col]\<close>.\<close>

definition add_ma :: "bool \<Rightarrow> string \<Rightarrow> nat \<Rightarrow> price list \<Rightarrow> dataframe \<times> string list
    \<Rightarrow> dataframe \<times> string list" where
  "add_ma enabled name w prices st =
     (case st of (df, ma_cols) \<Rightarrow>
        if enabled then (df_set_col df name (rolling_mean w prices), ma_cols @ [name])
        else (df, ma_cols))"

text \<open>
  The moving averages of \<open>_fetch_and_plot\<close>. The check boxes are read here, on the
  worker thread, from the application as it is at that moment. \<open>price_col\<close> names a
  column the table has, and the added columns leave it as it is.
\<close>

definition compute_mas :: "app \<Rightarrow> dataframe \<Rightarrow> string \<times> dataframe \<times> string list" where
  "compute_mas self df =
     (let (price_col, prices) =
            (case adj_close df of
               Some ps \<Rightarrow> (''Adj Close'', ps)
             | None \<Rightarrow> (''Close'', close df));
          st1 = add_ma (ma5_var self) ''MA5'' 5 prices (df, []);
          st2 = add_ma (ma20_var self) ''MA20'' 20 prices st1;
          st3 = add_ma (ma50_var self) ''MA50'' 50 prices st2
      in (price_col, st3))"

text \<open>
  What the worker hands to \<open>self.after(0, ...)\<close>. Both are \<open>lambda\<close>s without
  parameters: their free variables are looked up when Tk runs them. The variables of
  the second stay bound. The \<open>e\<close> of the first is the name of the \<open>except\<close> clause, which
  Python unbinds when the clause is left.
\<close>

datatype callback =
    Cb_on_fetch_error
  | Cb_draw_plot string dataframe string "string list" string date date

text \<open>\<open>_fetch_and_plot\<close>: the callback it schedules and the exception its handler bound
  to \<open>e\<close>, if it ran.\<close>

definition fetch_and_plot :: "provider \<Rightarrow> app \<Rightarrow> string \<Rightarrow> date \<Rightarrow> date \<Rightarrow> string
    \<Rightarrow> callback \<times> exn option" where
  "fetch_and_plot yf self symbol start end interval =
     (case download yf symbol start end interval of
        Inl e \<Rightarrow> (Cb_on_fetch_error, Some e)
      | Inr df \<Rightarrow>
          (case compute_mas self df of (price_col, df', ma_cols) \<Rightarrow>
             (Cb_draw_plot symbol df' price_col ma_cols interval start end, None)))"

subsection \<open>The callbacks on the interface thread\<close>

definition on_fetch_error :: "exn \<Rightarrow> app \<Rightarrow> app" where
  "on_fetch_error e a =
     showerror ''Download error'' (exn_str e) (a\<lparr>load_btn_enabled := True, status_var := ''Error''\<rparr>)"

fun plot_mas :: "dataframe \<Rightarrow> string list \<Rightarrow> artist list \<Rightarrow> exn option \<times> artist list" where
  "plot_mas df [] drawn = (None, drawn)"
| "plot_mas df (c # cs) drawn =
     (case df_col df c of
        None \<Rightarrow> (Some (KeyError c), drawn)
      | Some ys \<Rightarrow> plot_mas df cs (drawn @ [Line c ys True]))"

definition chart_title :: "string \<Rightarrow> string \<Rightarrow> string \<Rightarrow> date \<Rightarrow> date \<Rightarrow> string" where
  "chart_title symbol price_col interval start end =
     symbol @ ''  '' @ [CHR 0xE2, CHR 0x80, CHR 0xA2] @ ''  '' @ price_col @ ''  ''
       @ [CHR 0xE2, CHR 0x80, CHR 0xA2] @ ''  '' @ interval @ ''   ('' @ isoformat start @ '' ''
       @ [CHR 0xE2, CHR 0x86, CHR 0x92] @ '' '' @ isoformat end @ '')''"

text \<open>\<open>v[0]\<close> on an element of the array \<open>df['Volume'].to_numpy()\<close>.\<close>

fun item0 :: "cell \<Rightarrow> exn + price" where
  "item0 (Scalar x) = Inl (IndexError ''invalid index to scalar variable.'')"
| "item0 (Row []) = Inl (IndexError ''index 0 is out of bounds for axis 0 with size 0'')"
| "item0 (Row (x # xs)) = Inr x"

text \<open>\<open>[v[0] for v in vol]\<close>: the first failure ends the comprehension.\<close>

fun first_items :: "cell list \<Rightarrow> exn + price list" where
  "first_items [] = Inr []"
| "first_items (v # vs) =
     (case item0 v of
        Inl e \<Rightarrow> Inl e
      | Inr x \<Rightarrow> (case first_items vs of Inl e \<Rightarrow> Inl e | Inr xs \<Rightarrow> Inr (x # xs)))"

definition loaded_status :: "string \<Rightarrow> nat \<Rightarrow> string" where
  "loaded_status symbol n = ''Loaded '' @ symbol @ '': '' @ str_nat n @ '' rows''"

text \<open>
  \<open>_draw_plot\<close>: the exception that escaped, if any, and the application afterwards.
  Labels, grids, legend and ticks are left to the plotting backend.
\<close>

definition draw_plot :: "string \<Rightarrow> dataframe \<Rightarrow> string \<Rightarrow> string list \<Rightarrow> string \<Rightarrow> date \<Rightarrow> date
    \<Rightarrow> app \<Rightarrow> exn option \<times> app" where
  "draw_plot symbol df price_col ma_cols interval start end a =
     (case df_col df price_col of
        None \<Rightarrow> (Some (KeyError price_col), a\<lparr>fig := []\<rparr>)
      | Some prices \<Rightarrow>
          (case plot_mas df ma_cols [Line price_col prices False] of
             (Some e, drawn) \<Rightarrow> (Some e, a\<lparr>fig := drawn\<rparr>)
           | (None, drawn) \<Rightarrow>
               let a1 = a\<lparr>fig := drawn @ [Title (chart_title symbol price_col interval start end)]\<rparr>;
                   a2 = (case volume df of
                           None \<Rightarrow> a1
                         | Some vol \<Rightarrow>
                             (case first_items vol of
                                Inr lst \<Rightarrow> a1\<lparr>fig := fig a1 @ [Bars lst]\<rparr>
                              | Inl e \<Rightarrow> showerror ''Volume error'' (exn_str e) a1))
               in (None, a2\<lparr>status_var := loaded_status symbol (df_len df),
                           load_btn_enabled := True\<rparr>)))"

text \<open>
  When Tk runs the scheduled callback, the worker is either still inside its \<open>except\<close>
  clause or has left it; nothing orders the two threads.
\<close>

datatype schedule = Handler_open | Handler_left

definition lookup_e :: "schedule \<Rightarrow> exn option \<Rightarrow> exn + exn" where
  "lookup_e sched bound =
     (case (sched, bound) of
        (Handler_open, Some e) \<Rightarrow> Inr e
      | _ \<Rightarrow> Inl (NameError
          (''cannot access free variable '' @ [CHR 0x27] @ ''e'' @ [CHR 0x27]
            @ '' where it is not associated with a value in enclosing scope'')))"

definition report_callback_exception :: "exn \<Rightarrow> app \<Rightarrow> app" where
  "report_callback_exception e a = a\<lparr>callback_errors := callback_errors a @ [e]\<rparr>"

definition run_callback :: "schedule \<Rightarrow> callback \<times> exn option \<Rightarrow> app \<Rightarrow> app" where
  "run_callback sched scheduled a =
     (case scheduled of
        (Cb_on_fetch_error, bound) \<Rightarrow>
          (case lookup_e sched bound of
             Inl err \<Rightarrow> report_callback_exception err a
           | Inr e \<Rightarrow> on_fetch_error e a)
      | (Cb_draw_plot symbol df price_col ma_cols interval start end, _) \<Rightarrow>
          (case draw_plot symbol df price_col ma_cols interval start end a of
             (Some err, a') \<Rightarrow> report_callback_exception err a'
           | (None, a') \<Rightarrow> a'))"

subsection \<open>One fetch cycle\<close>

text \<open>What the user does to the controls while the download is in flight.\<close>

datatype edit =
    Set_symbol string
  | Set_start string
  | Set_end string
  | Set_interval string
  | Set_ma5 bool
  | Set_ma20 bool
  | Set_ma50 bool

fun apply_edit :: "edit \<Rightarrow> app \<Rightarrow> app" where
  "apply_edit (Set_symbol s) a = a\<lparr>symbol_var := s\<rparr>"
| "apply_edit (Set_start s) a = a\<lparr>start_var := s\<rparr>"
| "apply_edit (Set_end s) a = a\<lparr>end_var := s\<rparr>"
| "apply_edit (Set_interval s) a = a\<lparr>interval_var := s\<rparr>"
| "apply_edit (Set_ma5 b) a = a\<lparr>ma5_var := b\<rparr>"
| "apply_edit (Set_ma20 b) a = a\<lparr>ma20_var := b\<rparr>"
| "apply_edit (Set_ma50 b) a = a\<lparr>ma50_var := b\<rparr>"

definition apply_edits :: "edit list \<Rightarrow> app \<Rightarrow> app" where
  "apply_edits es a = fold apply_edit es a"

text \<open>
  From the call of \<open>_fetch_and_plot_async\<close> to the end of the callback the worker
  scheduled, with the edits made in between.
\<close>

definition worker :: "provider \<Rightarrow> app \<Rightarrow> request \<Rightarrow> callback \<times> exn option" where
  "worker yf self r =
     fetch_and_plot yf self (req_symbol r) (req_start r) (req_end r) (req_interval r)"

definition fetch_cycle :: "schedule \<Rightarrow> provider \<Rightarrow> date \<Rightarrow> edit list \<Rightarrow> app \<Rightarrow> app" where
  "fetch_cycle sched yf today edits a =
     (case fetch_and_plot_async a today of
        (a1, None) \<Rightarrow> a1
      | (a1, Some r) \<Rightarrow>
          (let a2 = apply_edits edits a1 in run_callback sched (worker yf a2 r) a2))"

section \<open>Vocabulary of the properties\<close>

text \<open>The choices of the interval box (\<open>_build_ui\<close>); the box is read-only.\<close>

definition intervals :: "string list" where
  "intervals = [''1d'', ''1wk'', ''1mo'', ''1h'', ''30m'', ''15m'', ''5m'', ''1m'']"

text \<open>The windows whose check box is ticked, with the names of their columns, in the
  order \<open>_fetch_and_plot\<close> goes through them.\<close>

definition enabled_windows :: "app \<Rightarrow> (string \<times> nat) list" where
  "enabled_windows self =
     (if ma5_var self then [(''MA5'', 5)] else []) @
     (if ma20_var self then [(''MA20'', 20)] else []) @
     (if ma50_var self then [(''MA50'', 50)] else [])"

text \<open>The column \<open>_fetch_and_plot\<close> takes as the price.\<close>

definition price_column :: "dataframe \<Rightarrow> price list" where
  "price_column df = (case adj_close df of Some ps \<Rightarrow> ps | None \<Rightarrow> close df)"



text \<open>The labels of the lines on a figure, in the order they were drawn.\<close>

fun line_labels :: "artist list \<Rightarrow> string list" where
  "line_labels [] = []"
| "line_labels (Line label ys dashed # rest) = label # line_labels rest"
| "line_labels (Title t # rest) = line_labels rest"
| "line_labels (Bars hs # rest) = line_labels rest"

text \<open>A provider that fails and reports the end bound it was given.\<close>

definition echo_end :: provider where
  "echo_end symbol start end interval = Raises (ProviderError end)"

text \<open>An application at rest and a table of ten daily rows, for the examples.\<close>

definition example_app :: app where
  "example_app =
     \<lparr>symbol_var = '' aapl '', start_var = ''2024-07-01'', end_var = ''2024-07-15'',
      interval_var = ''1d'', ma5_var = True, ma20_var = True, ma50_var = True,
      status_var = ''Ready'', load_btn_enabled = True, fig = [], dialogs = [],
      callback_errors = []\<rparr>"

definition example_prices :: "rat list" where
  "example_prices = [10, 11, 12, 13, 14, 15, 16, 17, 18, 19]"

definition example_table :: dataframe where
  "example_table =
     \<lparr>df_index = [1, 2, 3, 4, 5, 6, 7, 8, 9, 10], adj_close = None,
      close = map Some example_prices,
      volume = Some [Scalar (Some 100), Scalar None, Scalar (Some 300), Scalar (Some 400),
                     Scalar (Some 500), Scalar (Some 600), Scalar (Some 700), Scalar (Some 800),
                     Scalar (Some 900), Scalar (Some 1000)],
      added = []\<rparr>"

definition empty_table :: dataframe where
  "empty_table = \<lparr>df_index = [], adj_close = None, close = [], volume = None, added = []\<rparr>"

section \<open>The moving averages\<close>

lemma rolling_mean_nth:
  "i < length xs \<Longrightarrow> rolling_mean w xs ! i = window_mean w (drop (Suc i - w) (take (Suc i) xs))"
  by (simp add: rolling_mean_def)

lemma length_rolling_mean: "length (rolling_mean w xs) = length xs"
  by (simp add: rolling_mean_def)

lemma map_filter_Some: "List.map_filter (\<lambda>x. x) (map Some ys) = ys"
  by (induction ys) (simp_all add: List.map_filter_simps)

lemma window_mean_numbers:
  "window_mean w (map Some ys) =
     (if w \<le> length ys \<and> ys \<noteq> [] then Some (sum_list ys / of_nat (length ys)) else None)"
  by (simp add: window_mean_def map_filter_Some)

lemma sum_list_window:
  assumes "b \<le> length ps"
  shows "sum_list (drop a (take b ps)) = (\<Sum>j = a..<b. ps ! j)"
proof -
  have "sum_list (drop a (take b ps)) = (\<Sum>k = 0..<b - a. drop a (take b ps) ! k)"
    using assms by (simp add: sum_list_sum_nth min_def)
  also have "\<dots> = (\<Sum>k = 0..<b - a. ps ! (a + k))"
    using assms by (intro sum.cong) auto
  also have "\<dots> = (\<Sum>j = a..<b. ps ! j)"
  proof (cases "a \<le> b")
    case True
    then show ?thesis
      using sum.shift_bounds_nat_ivl [of "\<lambda>j. ps ! j" 0 a "b - a"] by (simp add: add.commute)
  next
    case False
    then show ?thesis by simp
  qed
  finally show ?thesis .
qed

lemma rolling_mean_numbers:
  assumes "i < length ps" and "0 < w"
  shows "rolling_mean w (map Some ps) ! i =
           (if Suc i < w then None else Some ((\<Sum>j = Suc i - w..<Suc i. ps ! j) / of_nat w))"
proof -
  let ?win = "drop (Suc i - w) (take (Suc i) ps)"
  have len: "length ?win = Suc i - (Suc i - w)"
    using assms(1) by (auto simp: min_def)
  have "rolling_mean w (map Some ps) ! i = window_mean w (map Some ?win)"
    using assms by (simp add: rolling_mean_nth drop_map take_map)
  also have "\<dots> = (if w \<le> length ?win \<and> ?win \<noteq> [] then Some (sum_list ?win / of_nat (length ?win)) else None)"
    by (rule window_mean_numbers)
  also have "\<dots> = (if Suc i < w then None else Some (sum_list ?win / of_nat w))"
  proof (cases "Suc i < w")
    case True
    then have "length ?win < w" using len by simp
    then show ?thesis using True by simp
  next
    case False
    then have "length ?win = w" using len by simp
    moreover from this assms have "?win \<noteq> []" by auto
    ultimately show ?thesis using False by simp
  qed
  also have "sum_list ?win = (\<Sum>j = Suc i - w..<Suc i. ps ! j)"
    using assms by (intro sum_list_window) simp
  finally show ?thesis .
qed


lemma df_col_added:
  "name \<noteq> ''Adj Close'' \<Longrightarrow> name \<noteq> ''Close'' \<Longrightarrow>
   df_col (df_set_col df name col) other =
     (if other = name then Some col else df_col df other)"
  by (simp add: df_col_def df_set_col_def update_conv')

lemma df_col_price:
  "df_col df (if adj_close df \<noteq> None then ''Adj Close'' else ''Close'') = Some (price_column df)"
  by (simp add: df_col_def price_column_def split: option.splits)

lemma compute_mas_price_col:
  "fst (compute_mas self df) = (if adj_close df \<noteq> None then ''Adj Close'' else ''Close'')"
  by (simp add: compute_mas_def Let_def split: option.splits)

lemma compute_mas_cols:
  "snd (snd (compute_mas self df)) = map fst (enabled_windows self)"
  by (simp add: compute_mas_def Let_def add_ma_def enabled_windows_def split: option.splits)

lemma compute_mas_lookup:
  assumes "(name, w) \<in> set (enabled_windows self)"
  shows "df_col (fst (snd (compute_mas self df))) name = Some (rolling_mean w (price_column df))"
  using assms
  by (auto simp: compute_mas_def Let_def add_ma_def enabled_windows_def price_column_def
        df_col_added split: option.splits if_splits)

lemma enabled_windows_pos: "(name, w) \<in> set (enabled_windows self) \<Longrightarrow> 0 < w"
  by (auto simp: enabled_windows_def split: if_splits)

text \<open>
  Claim C1. For every ticked window \<open>w\<close> and every sequence of prices, the column the
  worker adds for it has the length of the price column; at a position \<open>i\<close> with
  \<open>i + 1 \<ge> w\<close> it holds the arithmetic mean of the prices at the positions \<open>i - w + 1\<close>
  to \<open>i\<close>, and at every earlier position it holds NaN, which is no number and so
  differs from every mean, zero included. A sequence shorter than the window gives NaN
  everywhere. Prices are exact rationals.
\<close>

theorem moving_average_column:
  assumes run: "compute_mas self df = (price_col, df', ma_cols)"
    and prices: "df_col df price_col = Some (map Some ps)"
    and enabled: "(name, w) \<in> set (enabled_windows self)"
  shows "name \<in> set ma_cols \<and>
         (\<exists>col. df_col df' name = Some col \<and> length col = length ps \<and>
            (\<forall>i < length ps.
               col ! i = (if i + 1 < w then None
                          else Some ((\<Sum>j = i + 1 - w..i. ps ! j) / of_nat w))) \<and>
            (length ps < w \<longrightarrow> (\<forall>i < length ps. col ! i = None)))"
proof -
  from run have pc: "price_col = (if adj_close df \<noteq> None then ''Adj Close'' else ''Close'')"
    using compute_mas_price_col [of self df] by simp
  from run have cols: "ma_cols = map fst (enabled_windows self)"
    using compute_mas_cols [of self df] by simp
  from run have df': "df' = fst (snd (compute_mas self df))" by simp
  from prices pc have pcol: "price_column df = map Some ps"
    using df_col_price [of df] by simp
  have w: "0 < w" using enabled by (rule enabled_windows_pos)
  let ?col = "rolling_mean w (map Some ps)"
  have look: "df_col df' name = Some ?col"
    using compute_mas_lookup [OF enabled, of df] df' pcol by simp
  have len: "length ?col = length ps" by (simp add: length_rolling_mean)
  have vals: "?col ! i = (if i + 1 < w then None
                          else Some ((\<Sum>j = i + 1 - w..i. ps ! j) / of_nat w))"
    if "i < length ps" for i
    using rolling_mean_numbers [OF that w] by (simp add: atLeastLessThanSuc_atLeastAtMost)
  have short: "?col ! i = None" if "length ps < w" "i < length ps" for i
    using vals [OF that(2)] that by simp
  have "name \<in> set ma_cols" using enabled cols by force
  with look len vals short show ?thesis by blast
qed

text \<open>Ten prices and the window 5: position 4 holds the mean of positions 0 to 4,
  position 3 holds NaN.\<close>

theorem moving_average_column_witness:
  "compute_mas example_app example_table = (''Close'', fst (snd (compute_mas example_app example_table)), [''MA5'', ''MA20'', ''MA50''])
   \<and> df_col example_table ''Close'' = Some (map Some example_prices)
   \<and> (''MA5'', 5) \<in> set (enabled_windows example_app)
   \<and> (\<exists>col. df_col (fst (snd (compute_mas example_app example_table))) ''MA5'' = Some col
        \<and> length col = 10
        \<and> col ! 4 = Some ((10 + 11 + 12 + 13 + 14) / 5) \<and> col ! 3 = None)"
proof -
  have run: "compute_mas example_app example_table =
     (''Close'', fst (snd (compute_mas example_app example_table)), [''MA5'', ''MA20'', ''MA50''])"
    by (simp add: compute_mas_def example_app_def example_table_def add_ma_def Let_def)
  have prices: "df_col example_table ''Close'' = Some (map Some example_prices)"
    by (simp add: df_col_def example_table_def)
  have enabled: "(''MA5'', 5) \<in> set (enabled_windows example_app)"
    by (simp add: enabled_windows_def example_app_def)
  from moving_average_column [OF run prices enabled]
  obtain col where col: "df_col (fst (snd (compute_mas example_app example_table))) ''MA5'' = Some col"
      "length col = length example_prices"
      "\<forall>i < length example_prices.
         col ! i = (if i + 1 < 5 then None
                    else Some ((\<Sum>j = i + 1 - 5..i. example_prices ! j) / of_nat 5))"
    by blast
  have l: "length example_prices = 10" by (simp add: example_prices_def)
  have "col ! 4 = Some ((\<Sum>j = 0..4. example_prices ! j) / 5)"
    using col(3) l by simp
  moreover have "{0..4::nat} = {0, 1, 2, 3, 4}" by auto
  ultimately have c4: "col ! 4 = Some ((10 + 11 + 12 + 13 + 14) / 5)"
    by (simp add: example_prices_def)
  have c3: "col ! 3 = None" using col(3) l by simp
  from run prices enabled col(1,2) l c4 c3 show ?thesis by auto
qed

section \<open>Parsing a date\<close>













section \<open>Validation and quick ranges\<close>

lemma date_eq_iff: "(a::date) = b \<longleftrightarrow> year a = year b \<and> month a = month b \<and> day a = day b"
  by (cases a, cases b) auto

lemma date_le_iff_not_lt: "date_le a b \<longleftrightarrow> \<not> date_lt b a"
  by (auto simp: date_le_def date_lt_def date_eq_iff)

text \<open>
  Claim C5. With a ticker that is not blank, and start and end texts that parse to the
  dates \<open>s\<close> and \<open>e\<close>: when \<open>s \<le> e\<close> the validation succeeds, the worker is started, and
  its request carries exactly \<open>s\<close> and \<open>e\<close>; when \<open>e < s\<close> the validation fails with the
  message that the end date is before the start date, shown in an error box, and no
  worker is started.
\<close>

theorem date_order_validation:
  assumes "upper (strip (symbol_var a)) \<noteq> []"
    and "date_sub_days today 365 = Inr year_ago"
    and "parse_date (start_var a) year_ago = Inr s"
    and "parse_date (end_var a) today = Inr e"
  shows "(date_le s e \<longrightarrow>
            (\<exists>r. validate a today = Inr r \<and> req_start r = s \<and> req_end r = e \<and>
                 fetch_and_plot_async a today
                   = (a\<lparr>load_btn_enabled := False, status_var := loading_status r\<rparr>, Some r))) \<and>
         (date_lt e s \<longrightarrow>
            validate a today = Inl (ValueError ''End date is before start date'') \<and>
            fetch_and_plot_async a today
              = (showerror ''Input error'' ''End date is before start date'' a, None))"
  using assms
  by (auto simp: validate_def fetch_and_plot_async_def Let_def date_le_iff_not_lt)

theorem date_order_validation_witness:
  "upper (strip (symbol_var example_app)) \<noteq> [] \<and>
   date_sub_days (mk_date 2024 7 15) 365 = Inr (mk_date 2023 7 16) \<and>
   parse_date (start_var example_app) (mk_date 2023 7 16) = Inr (mk_date 2024 7 1) \<and>
   parse_date (end_var example_app) (mk_date 2024 7 15) = Inr (mk_date 2024 7 15) \<and>
   date_le (mk_date 2024 7 1) (mk_date 2024 7 15) \<and>
   (\<exists>r. validate example_app (mk_date 2024 7 15) = Inr r \<and>
        req_start r = mk_date 2024 7 1 \<and> req_end r = mk_date 2024 7 15 \<and>
        snd (fetch_and_plot_async example_app (mk_date 2024 7 15)) = Some r) \<and>
   parse_date (end_var (example_app\<lparr>end_var := ''2024-06-01''\<rparr>)) (mk_date 2024 7 15)
     = Inr (mk_date 2024 6 1) \<and>
   date_lt (mk_date 2024 6 1) (mk_date 2024 7 1) \<and>
   fetch_and_plot_async (example_app\<lparr>end_var := ''2024-06-01''\<rparr>) (mk_date 2024 7 15)
     = (showerror ''Input error'' ''End date is before start date''
          (example_app\<lparr>end_var := ''2024-06-01''\<rparr>), None)"
proof -
  let ?today = "mk_date 2024 7 15"
  let ?b = "example_app\<lparr>end_var := ''2024-06-01''\<rparr>"
  have h1: "upper (strip (symbol_var example_app)) \<noteq> []" by code_simp
  have h2: "date_sub_days ?today 365 = Inr (mk_date 2023 7 16)" by code_simp
  have h3: "parse_date (start_var example_app) (mk_date 2023 7 16) = Inr (mk_date 2024 7 1)"
    by code_simp
  have h4: "parse_date (end_var example_app) ?today = Inr (mk_date 2024 7 15)" by code_simp
  have h5: "date_le (mk_date 2024 7 1) (mk_date 2024 7 15)" by code_simp
  have g1: "upper (strip (symbol_var ?b)) \<noteq> []" by code_simp
  have g3: "parse_date (start_var ?b) (mk_date 2023 7 16) = Inr (mk_date 2024 7 1)"
    by code_simp
  have g4: "parse_date (end_var ?b) ?today = Inr (mk_date 2024 6 1)" by code_simp
  have g5: "date_lt (mk_date 2024 6 1) (mk_date 2024 7 1)" by code_simp
  from date_order_validation [OF h1 h2 h3 h4] h5
  have c1: "\<exists>r. validate example_app ?today = Inr r \<and>
        req_start r = mk_date 2024 7 1 \<and> req_end r = mk_date 2024 7 15 \<and>
        snd (fetch_and_plot_async example_app ?today) = Some r"
    by auto
  from date_order_validation [OF g1 h2 g3 g4] g5
  have c2: "fetch_and_plot_async ?b ?today
     = (showerror ''Input error'' ''End date is before start date'' ?b, None)"
    by blast
  from h1 h2 h3 h4 h5 c1 g4 g5 c2 show ?thesis by blast
qed

text \<open>
  Claim C9, as amended. An empty interval text becomes \<open>1d\<close>; every other text, in the
  list of the interval box or not, is passed on unchanged; the interval is never a reason
  for the validation to fail.
\<close>

theorem interval_passes_through:
  "(\<forall>r. validate a today = Inr r \<longrightarrow>
        validate (a\<lparr>interval_var := x\<rparr>) today
          = Inr (r\<lparr>req_interval := (if x = [] then ''1d'' else x)\<rparr>)) \<and>
   (\<forall>e. validate a today = Inl e \<longrightarrow> validate (a\<lparr>interval_var := x\<rparr>) today = Inl e)"
  by (auto simp: validate_def Let_def split: sum.splits if_splits)

theorem interval_passes_through_witness:
  "validate example_app (mk_date 2024 7 15)
     = Inr \<lparr>req_symbol = ''AAPL'', req_start = mk_date 2024 7 1, req_end = mk_date 2024 7 15,
            req_interval = ''1d''\<rparr> \<and>
   validate (example_app\<lparr>interval_var := []\<rparr>) (mk_date 2024 7 15)
     = Inr \<lparr>req_symbol = ''AAPL'', req_start = mk_date 2024 7 1, req_end = mk_date 2024 7 15,
            req_interval = ''1d''\<rparr> \<and>
   validate (example_app\<lparr>interval_var := ''1wk''\<rparr>) (mk_date 2024 7 15)
     = Inr \<lparr>req_symbol = ''AAPL'', req_start = mk_date 2024 7 1, req_end = mk_date 2024 7 15,
            req_interval = ''1wk''\<rparr> \<and>
   validate (example_app\<lparr>symbol_var := '' ''\<rparr>) (mk_date 2024 7 15)
     = Inl (ValueError ''Ticker cannot be empty'') \<and>
   validate (example_app\<lparr>symbol_var := '' '', interval_var := ''1wk''\<rparr>) (mk_date 2024 7 15)
     = Inl (ValueError ''Ticker cannot be empty'')"
proof -
  let ?today = "mk_date 2024 7 15"
  let ?r = "\<lparr>req_symbol = ''AAPL'', req_start = mk_date 2024 7 1, req_end = mk_date 2024 7 15,
            req_interval = ''1d''\<rparr>"
  have v: "validate example_app ?today = Inr ?r" by code_simp
  have f: "validate (example_app\<lparr>symbol_var := '' ''\<rparr>) ?today
             = Inl (ValueError ''Ticker cannot be empty'')" by code_simp
  have c1: "validate (example_app\<lparr>interval_var := []\<rparr>) ?today = Inr ?r"
    using interval_passes_through [of example_app ?today "[]"] v by simp
  have c2: "validate (example_app\<lparr>interval_var := ''1wk''\<rparr>) ?today
              = Inr (?r\<lparr>req_interval := ''1wk''\<rparr>)"
    using interval_passes_through [of example_app ?today "''1wk''"] v by simp
  have c3: "validate (example_app\<lparr>symbol_var := '' '', interval_var := ''1wk''\<rparr>) ?today
              = Inl (ValueError ''Ticker cannot be empty'')"
    using interval_passes_through [of "example_app\<lparr>symbol_var := '' ''\<rparr>" ?today "''1wk''"] f
    by simp
  from v f c1 c2 c3 show ?thesis by simp
qed

text \<open>Claim C9 as it is worded fails: \<open>2d\<close> is not a choice of the interval box and the
  validation passes it on.\<close>

theorem interval_outside_list_accepted:
  "''2d'' \<notin> set intervals \<and>
   validate (example_app\<lparr>interval_var := ''2d''\<rparr>) (mk_date 2024 7 15)
     = Inr \<lparr>req_symbol = ''AAPL'', req_start = mk_date 2024 7 1, req_end = mk_date 2024 7 15,
            req_interval = ''2d''\<rparr>"
proof -
  have "''2d'' \<notin> set intervals" by (simp add: intervals_def)
  moreover have "validate (example_app\<lparr>interval_var := ''2d''\<rparr>) (mk_date 2024 7 15)
     = Inr \<lparr>req_symbol = ''AAPL'', req_start = mk_date 2024 7 1, req_end = mk_date 2024 7 15,
            req_interval = ''2d''\<rparr>" by code_simp
  ultimately show ?thesis by simp
qed

text \<open>
  Claim C10. With the current date 2024-07-15 the preset \<open>ytd\<close> gives the start
  2024-01-01 and the end 2024-07-15, and writes both into the date fields. The preset
  \<open>max\<close> gives, for every current date, the fixed start 1980-01-01 and the current date
  as the end; both fields are written, so the range is never open.
\<close>

theorem quick_range_presets:
  "quick_range Ytd (mk_date 2024 7 15) = Inr (mk_date 2024 1 1, mk_date 2024 7 15) \<and>
   set_quick_range Ytd (mk_date 2024 7 15) a
     = a\<lparr>start_var := ''2024-01-01'', end_var := ''2024-07-15''\<rparr> \<and>
   quick_range Max today = Inr (mk_date 1980 1 1, today) \<and>
   set_quick_range Max today a = a\<lparr>start_var := ''1980-01-01'', end_var := isoformat today\<rparr> \<and>
   isoformat today \<noteq> []"
proof -
  have y: "quick_range Ytd (mk_date 2024 7 15) = Inr (mk_date 2024 1 1, mk_date 2024 7 15)"
    by code_simp
  have m: "quick_range Max today = Inr (mk_date 1980 1 1, today)"
  proof -
    have "date_new 1980 1 1 = Some (mk_date 1980 1 1)" by code_simp
    then show ?thesis by (simp add: quick_range_def)
  qed
  have i1: "isoformat (mk_date 2024 1 1) = ''2024-01-01''" by code_simp
  have i2: "isoformat (mk_date 2024 7 15) = ''2024-07-15''" by code_simp
  have i3: "isoformat (mk_date 1980 1 1) = ''1980-01-01''" by code_simp
  have "isoformat today \<noteq> []" by (simp add: isoformat_def)
  with y m i1 i2 i3 show ?thesis by (simp add: set_quick_range_def)
qed

lemma quick_range_ytd:
  "valid_date today \<Longrightarrow> quick_range Ytd today = Inr (mk_date (year today) 1 1, today)"
  by (simp add: quick_range_def date_new_def valid_date_def mk_date_def days_in_month_def)

section \<open>The end bound given to the provider\<close>

lemma days_in_month_bounds: "28 \<le> days_in_month y m \<and> days_in_month y m \<le> 31"
  by (simp add: days_in_month_def)

text \<open>
  Claim C6, as amended. For every end date but the last day of the calendar, and for
  every interval alike, the worker calls the provider with the start date as it is and
  with the end date moved by one calendar day: the bound is the very next day, so the
  days before the bound, which is what an exclusive bound asks for, are the days up to
  and including the user's end date.
\<close>

theorem end_bound_is_next_day:
  assumes "valid_date e" and "e \<noteq> mk_date 9999 12 31"
  shows "\<exists>e1. date_add_days e 1 = Inr e1 \<and> valid_date e1 \<and> date_lt e e1 \<and>
           (\<forall>d. valid_date d \<and> date_lt d e1 \<longrightarrow> date_le d e) \<and>
           (\<forall>yf symbol start interval.
              download yf symbol start e interval
                = check_table (yf symbol (isoformat start) (isoformat e1) interval))"
proof -
  let ?y = "year e" and ?m = "month e" and ?d = "day e"
  let ?dim = "days_in_month ?y ?m"
  from assms(1) have v: "1 \<le> ?y" "?y \<le> 9999" "1 \<le> ?m" "?m \<le> 12" "1 \<le> ?d" "?d \<le> ?dim"
    by (simp_all add: valid_date_def)
  have e: "e = mk_date ?y ?m ?d" by (simp add: mk_date_def)
  define e1 where "e1 =
     (if ?d < ?dim then mk_date ?y ?m (?d + 1)
      else if ?m < 12 then mk_date ?y (?m + 1) 1 else mk_date (?y + 1) 1 1)"
  have last: "?d < ?dim \<or> ?m < 12 \<or> ?y < 9999"
  proof (rule ccontr)
    assume "\<not> (?d < ?dim \<or> ?m < 12 \<or> ?y < 9999)"
    with v have "?m = 12" "?y = 9999" "?d = ?dim" by simp_all
    then have "?m = 12" "?y = 9999" "?d = 31" by (simp_all add: days_in_month_def)
    with e assms(2) show False by simp
  qed
  consider (inside) "?d < ?dim" | (month_end) "?d = ?dim" "?m < 12"
    | (year_end) "?d = ?dim" "?m = 12" "?y < 9999"
    using v last by fastforce
  then have add: "date_add_days e 1 = Inr e1"
  proof cases
    case inside
    then show ?thesis using v
      by (simp add: date_add_days_def normalize_date_def Let_def e1_def mk_date_def)
  next
    case month_end
    then show ?thesis using v
      by (simp add: date_add_days_def normalize_date_def Let_def e1_def mk_date_def)
  next
    case year_end
    then show ?thesis using v
      by (simp add: date_add_days_def normalize_date_def Let_def e1_def mk_date_def)
  qed
  have valid1: "valid_date e1"
    using v last days_in_month_bounds [of ?y "?m + 1"] days_in_month_bounds [of "?y + 1" 1]
    by (auto simp: e1_def valid_date_def mk_date_def)
  have lt: "date_lt e e1"
    using v by (simp add: e1_def date_lt_def mk_date_def)
  have next_day: "date_le d e" if "valid_date d \<and> date_lt d e1" for d
  proof -
    from that have vd: "1 \<le> month d" "month d \<le> 12" "1 \<le> day d"
        "day d \<le> days_in_month (year d) (month d)"
      by (simp_all add: valid_date_def)
    from that have l: "date_lt d e1" by simp
    have "\<not> date_lt e d"
    proof (cases "?d < ?dim")
      case True
      then have "year e1 = ?y" "month e1 = ?m" "day e1 = ?d + 1"
        by (simp_all add: e1_def mk_date_def)
      with l show ?thesis unfolding date_lt_def by linarith
    next
      case False
      with v have full: "?d = ?dim" by simp
      show ?thesis
      proof (cases "?m < 12")
        case True
        with False have f1: "year e1 = ?y" "month e1 = ?m + 1" "day e1 = 1"
          by (simp_all add: e1_def mk_date_def)
        have "day d \<le> ?d" if "year d = ?y" "month d = ?m"
          using that vd(4) full by simp
        with l f1 vd(3) show ?thesis unfolding date_lt_def by linarith
      next
        case m12: False
        with v have m: "?m = 12" by simp
        from m12 False have f1: "year e1 = ?y + 1" "month e1 = 1" "day e1 = 1"
          by (simp_all add: e1_def mk_date_def)
        have "day d \<le> ?d" if "year d = ?y" "month d = ?m"
          using that vd(4) full by simp
        with l f1 vd(1,2,3) m show ?thesis unfolding date_lt_def by linarith
      qed
    qed
    then show ?thesis by (auto simp: date_le_def date_lt_def date_eq_iff)
  qed
  have "download yf symbol start e interval
          = check_table (yf symbol (isoformat start) (isoformat e1) interval)"
    for yf symbol start interval
    by (simp add: download_def add)
  with add valid1 lt next_day show ?thesis by blast
qed

text \<open>The last day of February 2024 with the daily interval: the provider is given the
  first of March.\<close>

theorem end_bound_is_next_day_witness:
  "valid_date (mk_date 2024 2 29) \<and> mk_date 2024 2 29 \<noteq> mk_date 9999 12 31 \<and>
   date_add_days (mk_date 2024 2 29) 1 = Inr (mk_date 2024 3 1) \<and>
   date_le (mk_date 2024 2 29) (mk_date 2024 2 29) \<and>
   download echo_end ''AAPL'' (mk_date 2024 2 1) (mk_date 2024 2 29) ''1d''
     = Inl (ProviderError ''2024-03-01'')"
proof -
  have h1: "valid_date (mk_date 2024 2 29)" by code_simp
  have h2: "mk_date 2024 2 29 \<noteq> mk_date 9999 12 31" by (simp add: mk_date_def)
  have a: "date_add_days (mk_date 2024 2 29) 1 = Inr (mk_date 2024 3 1)" by code_simp
  have i: "isoformat (mk_date 2024 3 1) = ''2024-03-01''" by code_simp
  from end_bound_is_next_day [OF h1 h2] obtain e1 where
    e1: "date_add_days (mk_date 2024 2 29) 1 = Inr e1"
    and le: "\<forall>d. valid_date d \<and> date_lt d e1 \<longrightarrow> date_le d (mk_date 2024 2 29)"
    and lt: "date_lt (mk_date 2024 2 29) e1"
    and dl: "\<forall>yf symbol start interval.
              download yf symbol start (mk_date 2024 2 29) interval
                = check_table (yf symbol (isoformat start) (isoformat e1) interval)"
    by blast
  from e1 a have "e1 = mk_date 2024 3 1" by simp
  with dl i have c: "download echo_end ''AAPL'' (mk_date 2024 2 1) (mk_date 2024 2 29) ''1d''
     = Inl (ProviderError ''2024-03-01'')"
    by (simp add: echo_end_def check_table_def)
  from le lt h1 have "date_le (mk_date 2024 2 29) (mk_date 2024 2 29)" by blast
  with h1 h2 a c show ?thesis by simp
qed

text \<open>Claim C6 as it is worded fails: with the weekly interval and the end date
  2024-07-15 the provider is given 2024-07-16, one day on, and not 2024-07-22, one
  week on.\<close>

theorem weekly_end_bound_is_one_day:
  "download echo_end ''AAPL'' (mk_date 2024 7 1) (mk_date 2024 7 15) ''1wk''
     = Inl (ProviderError ''2024-07-16'') \<and>
   date_add_days (mk_date 2024 7 15) 7 = Inr (mk_date 2024 7 22) \<and>
   isoformat (mk_date 2024 7 22) = ''2024-07-22''"
proof -
  have "download echo_end ''AAPL'' (mk_date 2024 7 1) (mk_date 2024 7 15) ''1wk''
     = Inl (ProviderError ''2024-07-16'')" by code_simp
  moreover have "date_add_days (mk_date 2024 7 15) 7 = Inr (mk_date 2024 7 22)" by code_simp
  moreover have "isoformat (mk_date 2024 7 22) = ''2024-07-22''" by code_simp
  ultimately show ?thesis by simp
qed

section \<open>Drawing the chart\<close>

lemma compute_mas_keeps:
  "volume (fst (snd (compute_mas self df))) = volume df"
  "df_index (fst (snd (compute_mas self df))) = df_index df"
  "adj_close (fst (snd (compute_mas self df))) = adj_close df"
  "close (fst (snd (compute_mas self df))) = close df"
  by (simp_all add: compute_mas_def Let_def add_ma_def df_set_col_def split: option.splits)

lemma compute_mas_price:
  "df_col (fst (snd (compute_mas self df))) (fst (compute_mas self df)) = Some (price_column df)"
proof -
  let ?df' = "fst (snd (compute_mas self df))"
  have "df_col ?df' (if adj_close ?df' \<noteq> None then ''Adj Close'' else ''Close'')
          = Some (price_column ?df')"
    by (rule df_col_price)
  then show ?thesis
    by (simp add: compute_mas_keeps compute_mas_price_col price_column_def split: option.splits)
qed

lemma plot_mas_found:
  "\<forall>c \<in> set cs. df_col df c = Some (f c) \<Longrightarrow>
   plot_mas df cs drawn = (None, drawn @ map (\<lambda>c. Line c (f c) True) cs)"
  by (induction cs arbitrary: drawn) simp_all

lemma plot_mas_transformed:
  "plot_mas (fst (snd (compute_mas self df))) (map fst (enabled_windows self)) drawn =
     (None, drawn @ map (\<lambda>(name, w). Line name (rolling_mean w (price_column df)) True)
                      (enabled_windows self))"
proof -
  let ?df' = "fst (snd (compute_mas self df))"
  let ?f = "\<lambda>c. the (df_col ?df' c)"
  have found: "\<forall>c \<in> set (map fst (enabled_windows self)). df_col ?df' c = Some (?f c)"
    using compute_mas_lookup [of _ _ self df] by fastforce
  have "map (\<lambda>c. Line c (?f c) True) (map fst (enabled_windows self))
          = map (\<lambda>(name, w). Line name (rolling_mean w (price_column df)) True)
              (enabled_windows self)"
    using compute_mas_lookup [of _ _ self df] by (auto simp: o_def)
  with plot_mas_found [OF found, of drawn] show ?thesis by simp
qed

text \<open>What \<open>_draw_plot\<close> does with the table and the names the worker hands over.\<close>

lemma draw_plot_transformed:
  assumes "compute_mas self df = (price_col, df', ma_cols)"
  shows "draw_plot symbol df' price_col ma_cols interval start end a =
     (let a1 = a\<lparr>fig := Line price_col (price_column df) False #
                    map (\<lambda>(name, w). Line name (rolling_mean w (price_column df)) True)
                      (enabled_windows self) @
                    [Title (chart_title symbol price_col interval start end)]\<rparr>;
          a2 = (case volume df of
                  None \<Rightarrow> a1
                | Some vol \<Rightarrow>
                    (case first_items vol of
                       Inr lst \<Rightarrow> a1\<lparr>fig := fig a1 @ [Bars lst]\<rparr>
                     | Inl e \<Rightarrow> showerror ''Volume error'' (exn_str e) a1))
      in (None, a2\<lparr>status_var := loaded_status symbol (df_len df), load_btn_enabled := True\<rparr>))"
proof -
  from assms have pc: "price_col = fst (compute_mas self df)"
    and df': "df' = fst (snd (compute_mas self df))"
    and cols: "ma_cols = map fst (enabled_windows self)"
    using compute_mas_cols [of self df] by simp_all
  have price: "df_col df' price_col = Some (price_column df)"
    unfolding pc df' by (rule compute_mas_price)
  have lines: "plot_mas df' ma_cols drawn =
     (None, drawn @ map (\<lambda>(name, w). Line name (rolling_mean w (price_column df)) True)
                      (enabled_windows self))" for drawn
    unfolding df' cols by (rule plot_mas_transformed)
  have keep: "volume df' = volume df" "df_len df' = df_len df"
    unfolding df' by (simp_all add: compute_mas_keeps df_len_def)
  show ?thesis
    by (simp add: draw_plot_def price lines keep Let_def split: option.splits sum.splits)
qed

text \<open>
  Claim C7, as amended. When the table has a volume column and taking the first item
  of each of its cells fails, the render neither stops nor lets an exception escape: the
  price line, the line of every ticked moving average and the title are drawn, no
  volume bars are drawn, the status line gives the row count, and the Load button is
  enabled again. The failure is not absorbed in silence: it is shown to the user in an
  error box titled \<open>Volume error\<close>.
\<close>

theorem volume_failure_is_shown:
  assumes "compute_mas self df = (price_col, df', ma_cols)"
    and "volume df = Some vol"
    and "first_items vol = Inl e"
  shows "draw_plot symbol df' price_col ma_cols interval start end a =
     (None,
      a\<lparr>fig := Line price_col (price_column df) False #
                map (\<lambda>(name, w). Line name (rolling_mean w (price_column df)) True)
                  (enabled_windows self) @
                [Title (chart_title symbol price_col interval start end)],
        dialogs := dialogs a @ [(''Volume error'', exn_str e)],
        status_var := loaded_status symbol (df_len df),
        load_btn_enabled := True\<rparr>)"
  using draw_plot_transformed [OF assms(1)] assms(2,3)
  by (simp add: Let_def showerror_def)

text \<open>The example table has a flat volume column, one cell of it NaN.\<close>

theorem volume_failure_is_shown_witness:
  "compute_mas example_app example_table
     = (''Close'', fst (snd (compute_mas example_app example_table)), [''MA5'', ''MA20'', ''MA50'']) \<and>
   volume example_table = Some (the (volume example_table)) \<and>
   first_items (the (volume example_table)) = Inl (IndexError ''invalid index to scalar variable.'') \<and>
   fst (draw_plot ''AAPL'' (fst (snd (compute_mas example_app example_table))) ''Close''
          [''MA5'', ''MA20'', ''MA50''] ''1d'' (mk_date 2024 7 1) (mk_date 2024 7 15) example_app)
     = None \<and>
   dialogs (snd (draw_plot ''AAPL'' (fst (snd (compute_mas example_app example_table))) ''Close''
          [''MA5'', ''MA20'', ''MA50''] ''1d'' (mk_date 2024 7 1) (mk_date 2024 7 15) example_app))
     = [(''Volume error'', ''invalid index to scalar variable.'')] \<and>
   line_labels (fig (snd (draw_plot ''AAPL'' (fst (snd (compute_mas example_app example_table)))
          ''Close'' [''MA5'', ''MA20'', ''MA50''] ''1d'' (mk_date 2024 7 1) (mk_date 2024 7 15)
          example_app))) = [''Close'', ''MA5'', ''MA20'', ''MA50''] \<and>
   status_var (snd (draw_plot ''AAPL'' (fst (snd (compute_mas example_app example_table))) ''Close''
          [''MA5'', ''MA20'', ''MA50''] ''1d'' (mk_date 2024 7 1) (mk_date 2024 7 15) example_app))
     = ''Loaded AAPL: 10 rows'' \<and>
   load_btn_enabled (snd (draw_plot ''AAPL'' (fst (snd (compute_mas example_app example_table)))
          ''Close'' [''MA5'', ''MA20'', ''MA50''] ''1d'' (mk_date 2024 7 1) (mk_date 2024 7 15)
          example_app))"
proof -
  have run: "compute_mas example_app example_table =
     (''Close'', fst (snd (compute_mas example_app example_table)), [''MA5'', ''MA20'', ''MA50''])"
    by (simp add: compute_mas_def example_app_def example_table_def add_ma_def Let_def)
  have vol: "volume example_table = Some (the (volume example_table))"
    by (simp add: example_table_def)
  have fail: "first_items (the (volume example_table))
                = Inl (IndexError ''invalid index to scalar variable.'')"
    by (simp add: example_table_def)
  have ew: "enabled_windows example_app = [(''MA5'', 5), (''MA20'', 20), (''MA50'', 50)]"
    by (simp add: enabled_windows_def example_app_def)
  have st: "loaded_status ''AAPL'' (df_len example_table) = ''Loaded AAPL: 10 rows''"
    by code_simp
  have d0: "dialogs example_app = []" by (simp add: example_app_def)
  note eq = volume_failure_is_shown [OF run vol fail, of "''AAPL''" "''1d''" "mk_date 2024 7 1"
      "mk_date 2024 7 15" example_app]
  show ?thesis
    unfolding eq using run vol fail by (simp add: ew st d0)
qed

section \<open>One fetch cycle\<close>

lemma apply_edit_widgets:
  "status_var (apply_edit ed a) = status_var a"
  "load_btn_enabled (apply_edit ed a) = load_btn_enabled a"
  "fig (apply_edit ed a) = fig a"
  "dialogs (apply_edit ed a) = dialogs a"
  "callback_errors (apply_edit ed a) = callback_errors a"
  by (cases ed; simp)+

lemma apply_edits_widgets:
  "status_var (apply_edits es a) = status_var a"
  "load_btn_enabled (apply_edits es a) = load_btn_enabled a"
  "fig (apply_edits es a) = fig a"
  "dialogs (apply_edits es a) = dialogs a"
  "callback_errors (apply_edits es a) = callback_errors a"
  unfolding apply_edits_def
  by (induction es arbitrary: a; simp add: apply_edit_widgets)+

text \<open>The three ways the provider fails end in the handler of the worker.\<close>

lemma check_table_failures:
  "check_table (Raises e) = Inl e"
  "check_table Returns_None = Inl (RuntimeError no_data_msg)"
  "df_empty df \<Longrightarrow> check_table (Returns df) = Inl (RuntimeError no_data_msg)"
  by (simp_all add: check_table_def)

lemma failed_download_schedules_handler:
  "download yf symbol start end interval = Inl e \<Longrightarrow>
   fetch_and_plot yf self symbol start end interval = (Cb_on_fetch_error, Some e)"
  by (simp add: fetch_and_plot_def)

text \<open>When Tk runs the callback while the worker is still in its handler, the failure
  is shown, the status is \<open>Error\<close>, the button is enabled and the figure is untouched.\<close>

lemma failed_cycle_handler_open:
  assumes "fetch_and_plot_async a today = (a1, Some r)"
    and "download yf (req_symbol r) (req_start r) (req_end r) (req_interval r) = Inl e"
  shows "fetch_cycle Handler_open yf today edits a = on_fetch_error e (apply_edits edits a1)"
    and "status_var (fetch_cycle Handler_open yf today edits a) = ''Error''"
    and "load_btn_enabled (fetch_cycle Handler_open yf today edits a)"
    and "fig (fetch_cycle Handler_open yf today edits a) = fig a"
    and "dialogs (fetch_cycle Handler_open yf today edits a)
           = dialogs a @ [(''Download error'', exn_str e)]"
proof -
  show c: "fetch_cycle Handler_open yf today edits a = on_fetch_error e (apply_edits edits a1)"
    using assms
    by (simp add: fetch_cycle_def worker_def failed_download_schedules_handler run_callback_def
        lookup_e_def Let_def)
  from assms(1) have a1: "fig a1 = fig a" "dialogs a1 = dialogs a"
    by (auto simp: fetch_and_plot_async_def split: sum.splits)
  show "status_var (fetch_cycle Handler_open yf today edits a) = ''Error''"
    and "load_btn_enabled (fetch_cycle Handler_open yf today edits a)"
    and "fig (fetch_cycle Handler_open yf today edits a) = fig a"
    and "dialogs (fetch_cycle Handler_open yf today edits a)
           = dialogs a @ [(''Download error'', exn_str e)]"
    unfolding c by (simp_all add: on_fetch_error_def showerror_def apply_edits_widgets a1)
qed

text \<open>When the worker has left its handler first, the callback finds \<open>e\<close> unbound:
  \<open>_on_fetch_error\<close> is not run, and the button stays disabled under the status
  \<open>Loading ...\<close>.\<close>

lemma failed_cycle_handler_left:
  assumes "fetch_and_plot_async a today = (a1, Some r)"
    and "download yf (req_symbol r) (req_start r) (req_end r) (req_interval r) = Inl e"
  shows "status_var (fetch_cycle Handler_left yf today edits a) = loading_status r"
    and "\<not> load_btn_enabled (fetch_cycle Handler_left yf today edits a)"
    and "dialogs (fetch_cycle Handler_left yf today edits a) = dialogs a"
    and "fig (fetch_cycle Handler_left yf today edits a) = fig a"
proof -
  from assms(1) have a1: "a1 = a\<lparr>load_btn_enabled := False, status_var := loading_status r\<rparr>"
    by (auto simp: fetch_and_plot_async_def split: sum.splits)
  have c: "fetch_cycle Handler_left yf today edits a =
      report_callback_exception
        (NameError (''cannot access free variable '' @ [CHR 0x27] @ ''e'' @ [CHR 0x27]
            @ '' where it is not associated with a value in enclosing scope''))
        (apply_edits edits a1)"
    using assms
    by (simp add: fetch_cycle_def worker_def failed_download_schedules_handler run_callback_def
        lookup_e_def Let_def)
  show "status_var (fetch_cycle Handler_left yf today edits a) = loading_status r"
    and "\<not> load_btn_enabled (fetch_cycle Handler_left yf today edits a)"
    and "dialogs (fetch_cycle Handler_left yf today edits a) = dialogs a"
    and "fig (fetch_cycle Handler_left yf today edits a) = fig a"
    unfolding c by (simp_all add: report_callback_exception_def apply_edits_widgets a1)
qed

lemma line_labels_append: "line_labels (xs @ ys) = line_labels xs @ line_labels ys"
  by (induction xs rule: line_labels.induct) simp_all

lemma line_labels_ma_lines:
  "line_labels (map (\<lambda>(name, w). Line name (f name w) True) ws) = map fst ws"
  by (induction ws) auto

text \<open>A cycle whose download succeeds ends, under either schedule, with the button
  enabled and the row count in the status line; the lines drawn are the price and the
  moving averages ticked when the worker read the check boxes; the only error box it
  can open is the one of the volume column.\<close>

lemma successful_cycle:
  assumes "fetch_and_plot_async a today = (a1, Some r)"
    and "download yf (req_symbol r) (req_start r) (req_end r) (req_interval r) = Inr df"
  shows "load_btn_enabled (fetch_cycle sched yf today edits a)"
    and "status_var (fetch_cycle sched yf today edits a) = loaded_status (req_symbol r) (df_len df)"
    and "line_labels (fig (fetch_cycle sched yf today edits a))
           = (if adj_close df \<noteq> None then ''Adj Close'' else ''Close'')
               # map fst (enabled_windows (apply_edits edits a1))"
    and "dialogs (fetch_cycle sched yf today edits a)
           = dialogs a @
               (case volume df of
                  None \<Rightarrow> []
                | Some vol \<Rightarrow>
                    (case first_items vol of
                       Inl e \<Rightarrow> [(''Volume error'', exn_str e)]
                     | Inr lst \<Rightarrow> []))"
proof -
  let ?a2 = "apply_edits edits a1"
  obtain price_col df' ma_cols where run: "compute_mas ?a2 df = (price_col, df', ma_cols)"
    by (cases "compute_mas ?a2 df") auto
  from run have pc: "price_col = (if adj_close df \<noteq> None then ''Adj Close'' else ''Close'')"
    using compute_mas_price_col [of ?a2 df] by simp
  from assms(1) have a1: "dialogs a1 = dialogs a"
    by (auto simp: fetch_and_plot_async_def split: sum.splits)
  have w: "worker yf ?a2 r =
     (Cb_draw_plot (req_symbol r) df' price_col ma_cols (req_interval r) (req_start r) (req_end r), None)"
    using assms(2) run by (simp add: worker_def fetch_and_plot_def)
  note d = draw_plot_transformed [OF run, of "req_symbol r" "req_interval r" "req_start r"
      "req_end r" ?a2]
  have c: "fetch_cycle sched yf today edits a =
     snd (draw_plot (req_symbol r) df' price_col ma_cols (req_interval r) (req_start r) (req_end r) ?a2)"
    using assms(1) by (simp add: fetch_cycle_def w run_callback_def d Let_def)
  show "load_btn_enabled (fetch_cycle sched yf today edits a)"
    and "status_var (fetch_cycle sched yf today edits a)
           = loaded_status (req_symbol r) (df_len df)"
    unfolding c d by (simp_all add: Let_def)
  show "line_labels (fig (fetch_cycle sched yf today edits a))
           = (if adj_close df \<noteq> None then ''Adj Close'' else ''Close'')
               # map fst (enabled_windows (apply_edits edits a1))"
    unfolding c d
    by (simp add: pc Let_def showerror_def line_labels_append line_labels_ma_lines
        split: option.splits sum.splits)
  show "dialogs (fetch_cycle sched yf today edits a)
           = dialogs a @
               (case volume df of
                  None \<Rightarrow> []
                | Some vol \<Rightarrow>
                    (case first_items vol of
                       Inl e \<Rightarrow> [(''Volume error'', exn_str e)]
                     | Inr lst \<Rightarrow> []))"
    unfolding c d
    by (simp add: Let_def showerror_def apply_edits_widgets a1 split: option.splits sum.splits)
qed

text \<open>The worker reads nothing of the application but the three check boxes.\<close>

lemma worker_reads_check_boxes_only:
  assumes "ma5_var a = ma5_var b" and "ma20_var a = ma20_var b" and "ma50_var a = ma50_var b"
  shows "worker yf a r = worker yf b r"
proof -
  have "compute_mas a df = compute_mas b df" for df
    using assms by (simp add: compute_mas_def)
  then show ?thesis by (simp add: worker_def fetch_and_plot_def split: sum.splits)
qed

subsection \<open>The cycle on the example\<close>

lemma example_dispatch:
  "fetch_and_plot_async example_app (mk_date 2024 7 15) =
     (example_app\<lparr>load_btn_enabled := False,
        status_var := ''Loading AAPL 1d from 2024-07-01 to 2024-07-15''
                        @ [CHR 0xE2, CHR 0x80, CHR 0xA6]\<rparr>,
      Some \<lparr>req_symbol = ''AAPL'', req_start = mk_date 2024 7 1, req_end = mk_date 2024 7 15,
            req_interval = ''1d''\<rparr>)"
  by code_simp

lemma example_end_bound: "date_add_days (mk_date 2024 7 15) 1 = Inr (mk_date 2024 7 16)"
  by code_simp

lemma example_download:
  "download (\<lambda>symbol start end interval. res) ''AAPL'' (mk_date 2024 7 1) (mk_date 2024 7 15) ''1d''
     = check_table res"
  by (simp add: download_def example_end_bound)

lemma example_table_not_empty: "\<not> df_empty example_table"
  by (simp add: df_empty_def example_table_def)

lemma empty_table_empty: "df_empty empty_table"
  by (simp add: df_empty_def empty_table_def)

text \<open>Claim C7 as it is worded fails: in a cycle on the example table, whose volume
  column is flat, the failure of the volume column is shown in an error box.\<close>

theorem volume_failure_opens_error_box:
  "dialogs example_app = [] \<and>
   dialogs (fetch_cycle Handler_open (\<lambda>symbol start end interval. Returns example_table)
              (mk_date 2024 7 15) [] example_app)
     = [(''Volume error'', ''invalid index to scalar variable.'')]"
proof -
  have d0: "dialogs example_app = []" by (simp add: example_app_def)
  have dl: "download (\<lambda>symbol start end interval. Returns example_table) ''AAPL''
              (mk_date 2024 7 1) (mk_date 2024 7 15) ''1d'' = Inr example_table"
    by (simp add: example_download check_table_def example_table_not_empty)
  have "dialogs (fetch_cycle Handler_open (\<lambda>symbol start end interval. Returns example_table)
              (mk_date 2024 7 15) [] example_app)
     = dialogs example_app @
         (case volume example_table of
            None \<Rightarrow> []
          | Some vol \<Rightarrow>
              (case first_items vol of
                 Inl e \<Rightarrow> [(''Volume error'', exn_str e)]
               | Inr lst \<Rightarrow> []))"
    by (rule successful_cycle(4) [OF example_dispatch]) (simp add: dl)
  also have "\<dots> = [(''Volume error'', ''invalid index to scalar variable.'')]"
    by (simp add: d0 example_table_def)
  finally show ?thesis using d0 by simp
qed

section \<open>The failure path and the snapshot\<close>

text \<open>
  Claim C2, evaluated where the code departs from it. The provider returns an empty
  table and the worker has left its handler when Tk runs the callback: no error is
  shown and the status is not \<open>Error\<close> but the text set at dispatch. The figure is
  untouched and nothing is drawn.
\<close>

theorem empty_table_failure_not_shown:
  "dialogs (fetch_cycle Handler_left (\<lambda>symbol start end interval. Returns empty_table)
              (mk_date 2024 7 15) [] example_app) = [] \<and>
   status_var (fetch_cycle Handler_left (\<lambda>symbol start end interval. Returns empty_table)
              (mk_date 2024 7 15) [] example_app)
     = ''Loading AAPL 1d from 2024-07-01 to 2024-07-15'' @ [CHR 0xE2, CHR 0x80, CHR 0xA6] \<and>
   fig (fetch_cycle Handler_left (\<lambda>symbol start end interval. Returns empty_table)
              (mk_date 2024 7 15) [] example_app) = []"
proof -
  let ?yf = "\<lambda>symbol start end interval. Returns empty_table"
  let ?r = "\<lparr>req_symbol = ''AAPL'', req_start = mk_date 2024 7 1, req_end = mk_date 2024 7 15,
            req_interval = ''1d''\<rparr>"
  have dl: "download ?yf (req_symbol ?r) (req_start ?r) (req_end ?r) (req_interval ?r)
              = Inl (RuntimeError no_data_msg)"
    by (simp add: example_download check_table_failures empty_table_empty)
  have st: "loading_status ?r
              = ''Loading AAPL 1d from 2024-07-01 to 2024-07-15'' @ [CHR 0xE2, CHR 0x80, CHR 0xA6]"
    by code_simp
  note left = failed_cycle_handler_left [OF example_dispatch dl, of "[]"]
  show ?thesis
    using left(1,3,4) st by (simp add: example_app_def)
qed

text \<open>
  Claim C3, evaluated where the code departs from it. The provider raises and the
  worker has left its handler when Tk runs the callback: the cycle ends with the Load
  button still disabled.
\<close>

theorem failed_cycle_leaves_button_disabled:
  "load_btn_enabled example_app \<and>
   \<not> load_btn_enabled
       (fetch_cycle Handler_left (\<lambda>symbol start end interval. Raises (ProviderError ''timed out''))
          (mk_date 2024 7 15) [] example_app)"
proof -
  let ?yf = "\<lambda>symbol start end interval. Raises (ProviderError ''timed out'')"
  let ?r = "\<lparr>req_symbol = ''AAPL'', req_start = mk_date 2024 7 1, req_end = mk_date 2024 7 15,
            req_interval = ''1d''\<rparr>"
  have dl: "download ?yf (req_symbol ?r) (req_start ?r) (req_end ?r) (req_interval ?r)
              = Inl (ProviderError ''timed out'')"
    by (simp add: example_download check_table_failures)
  from failed_cycle_handler_left(2) [OF example_dispatch dl, of "[]"]
  show ?thesis by (simp add: example_app_def)
qed

text \<open>
  Claim C8, evaluated where the code departs from it. Two runs of one cycle, the same
  application at dispatch, the same request and the same table from the provider: in
  the second the user unticks MA5 while the download is in flight, and the derived
  series of the second has no MA5 column.
\<close>

theorem toggle_in_flight_changes_series:
  "line_labels (fig (fetch_cycle Handler_open (\<lambda>symbol start end interval. Returns example_table)
                       (mk_date 2024 7 15) [] example_app))
     = [''Close'', ''MA5'', ''MA20'', ''MA50''] \<and>
   line_labels (fig (fetch_cycle Handler_open (\<lambda>symbol start end interval. Returns example_table)
                       (mk_date 2024 7 15) [Set_ma5 False] example_app))
     = [''Close'', ''MA20'', ''MA50'']"
proof -
  let ?yf = "\<lambda>symbol start end interval. Returns example_table"
  let ?r = "\<lparr>req_symbol = ''AAPL'', req_start = mk_date 2024 7 1, req_end = mk_date 2024 7 15,
            req_interval = ''1d''\<rparr>"
  have dl: "download ?yf (req_symbol ?r) (req_start ?r) (req_end ?r) (req_interval ?r)
              = Inr example_table"
    by (simp add: example_download check_table_def example_table_not_empty)
  have ac: "adj_close example_table = None" by (simp add: example_table_def)
  note lines = successful_cycle(3) [OF example_dispatch dl, of Handler_open]
  have "line_labels (fig (fetch_cycle Handler_open ?yf (mk_date 2024 7 15) [] example_app))
          = [''Close'', ''MA5'', ''MA20'', ''MA50'']"
    unfolding lines [of "[]"]
    by (simp add: ac apply_edits_def enabled_windows_def example_app_def)
  moreover
  have "line_labels (fig (fetch_cycle Handler_open ?yf (mk_date 2024 7 15) [Set_ma5 False] example_app))
          = [''Close'', ''MA20'', ''MA50'']"
    unfolding lines [of "[Set_ma5 False]"]
    by (simp add: ac apply_edits_def enabled_windows_def example_app_def)
  ultimately show ?thesis by simp
qed

end
